theory Spec2Isabelle
  imports Main
begin

section \<open>Data model (models.py)\<close>

text \<open>
  The two SQLModel tables. The Python attributes \<^verbatim>\<open>id\<close> and \<^verbatim>\<open>name\<close> occur in both
  classes and \<^verbatim>\<open>id\<close> is a HOL constant, so they carry a suffix here: \<open>id_h\<close>,
  \<open>name_h\<close> for \<^verbatim>\<open>Host\<close> and \<open>id_s\<close>, \<open>name_s\<close> for \<^verbatim>\<open>Stack\<close>. Every other field keeps
  its name. \<^verbatim>\<open>Optional[T]\<close> is \<open>T option\<close>, \<^verbatim>\<open>str\<close> is \<open>string\<close> (one \<open>char\<close> per code
  point below 256), \<^verbatim>\<open>int\<close> is \<open>int\<close>. The defaults of the class (\<^verbatim>\<open>ssh_port = 22\<close>, the
  others \<^verbatim>\<open>None\<close>) are those of \<open>Host_defaults\<close>.
\<close>

record Stack =
  id_s :: "int option"
  name_s :: string
  compose_file :: string
  host_id :: int

record Host =
  id_h :: "int option"
  name_h :: string
  host :: string
  connection_type :: string
  docker_url :: "string option"
  ssh_user :: "string option"
  ssh_key_filename :: "string option"
  ssh_port :: "int option"
  sudo_user :: "string option"
  sudo_password :: "string option"

definition Host_defaults :: "string \<Rightarrow> string \<Rightarrow> string \<Rightarrow> Host" where
  "Host_defaults n a k =
     \<lparr>id_h = None, name_h = n, host = a, connection_type = k, docker_url = None,
      ssh_user = None, ssh_key_filename = None, ssh_port = Some 22,
      sudo_user = None, sudo_password = None\<rparr>"

section \<open>Exceptions and Python helpers\<close>

text \<open>
  Every \<^verbatim>\<open>raise\<close> of the source is a value. \<open>HTTPException\<close> carries the status code and
  the detail text; the other constructors are the Python exceptions that the modelled
  paths can let escape. At the HTTP boundary FastAPI answers an \<open>HTTPException\<close> with its
  own status code and any other exception with 500.
\<close>

datatype exn =
    HTTPException int string
  | AttributeError string
  | IndexError
  | IntegrityError
  | DockerException string
  | JSONDecodeError string
  | TypeError string
  | InvalidRequestError string

fun http_status :: "exn \<Rightarrow> int" where
  "http_status (HTTPException code detail) = code"
| "http_status e = 500"

text \<open>Truthiness of an \<^verbatim>\<open>Optional[str]\<close>: \<^verbatim>\<open>None\<close> and the empty string are false.\<close>

fun truthy :: "string option \<Rightarrow> bool" where
  "truthy None = False"
| "truthy (Some s) = (s \<noteq> [])"

text \<open>
  \<^verbatim>\<open>str.isspace\<close> on one character, for the code points a \<open>char\<close> can hold: tab to
  carriage return (9 to 13), the separators 28 to 31, space, NEL (133) and the
  no-break space (160).
\<close>

definition py_isspace :: "char \<Rightarrow> bool" where
  "py_isspace c =
     (let n = (of_char c :: nat)
      in (9 \<le> n \<and> n \<le> 13) \<or> (28 \<le> n \<and> n \<le> 32) \<or> n = 133 \<or> n = 160)"

text \<open>\<^verbatim>\<open>str.strip()\<close> with no argument.\<close>

definition strip :: "string \<Rightarrow> string" where
  "strip s = rev (dropWhile py_isspace (rev (dropWhile py_isspace s)))"

text \<open>
  \<^verbatim>\<open>s.rsplit(sep, 1)\<close> for a one-character separator: the text before the last
  separator and the text after it, or the whole string alone when it holds no separator.
\<close>

definition rsplit1 :: "char \<Rightarrow> string \<Rightarrow> string list" where
  "rsplit1 sep s =
     (if sep \<in> set s
      then [rev (tl (dropWhile (\<lambda>c. c \<noteq> sep) (rev s))),
            rev (takeWhile (\<lambda>c. c \<noteq> sep) (rev s))]
      else [s])"

text \<open>\<^verbatim>\<open>xs[0]\<close>, which raises on the empty list.\<close>

fun item0 :: "'a list \<Rightarrow> exn + 'a" where
  "item0 [] = Inl IndexError"
| "item0 (x # xs) = Inr x"

section \<open>Collaborators and the trace of effects\<close>

text \<open>
  What Fabric is asked to do in one \<^verbatim>\<open>run_ssh_command\<close>: the arguments of
  \<^verbatim>\<open>Connection(...)\<close>, the sudo password of the \<^verbatim>\<open>Config\<close> overrides (\<open>None\<close> for
  \<^verbatim>\<open>overrides={}\<close>), the method called (\<^verbatim>\<open>conn.sudo(cmd, user=u, hide=True)\<close> or
  \<^verbatim>\<open>conn.run(cmd, hide=True)\<close>), the command and the \<^verbatim>\<open>hide\<close> flag.
\<close>

datatype run_mode = Run | Sudo string

record shell_call =
  conn_host :: string
  conn_user :: "string option"
  conn_port :: "int option"
  conn_key_filename :: "string option"
  config_sudo_password :: "string option"
  mode :: run_mode
  cmd_text :: string
  hide :: bool

text \<open>The \<^verbatim>\<open>Result\<close> object of a finished remote command.\<close>

record Result =
  stdout :: string
  stderr :: string
  exited :: int

text \<open>
  What Fabric does with a call, from \<^verbatim>\<open>Connection(...)\<close> on: no connection comes about
  (Fabric refuses to build it, as it does for a key file name of \<^verbatim>\<open>None\<close>, or it cannot
  be opened), the authentication is refused, or the command runs on the remote host to
  its end. The strings are \<^verbatim>\<open>str(e)\<close> of the exception raised.
\<close>

datatype remote_outcome =
    ConnectFailed string
  | AuthFailed string
  | Finished Result

text \<open>A container as the Docker SDK reports it.\<close>

record Container =
  short_id :: string
  name_c :: string
  status :: string

text \<open>
  The collaborators outside the repository, as parameters: Fabric with the remote shell
  behind it (\<open>remote_shell\<close>), the text Invoke renders for an \<^verbatim>\<open>UnexpectedExit\<close>, the
  Docker daemon behind a base URL
  (\<^verbatim>\<open>client.containers.list(all=True)\<close> and \<^verbatim>\<open>client.containers.get(id).start()\<close>) and
  \<^verbatim>\<open>json.loads\<close>.
\<close>

record 'j collab =
  remote_shell :: "shell_call \<Rightarrow> remote_outcome"
  str_unexpected_exit :: "Result \<Rightarrow> string"
  daemon_list :: "string \<Rightarrow> exn + Container list"
  daemon_start :: "string \<Rightarrow> string \<Rightarrow> exn + unit"
  json_loads :: "string \<Rightarrow> exn + 'j"

text \<open>
  The object that \<^verbatim>\<open>_get_compose\<close> asks \<^verbatim>\<open>docker_composer_v2.DockerCompose\<close> for, under
  the keywords the source passes. \<^verbatim>\<open>run_command\<close> is the bound method
  \<^verbatim>\<open>self.manager.run_ssh_command\<close>, represented by the host of that manager.
\<close>

record DockerCompose =
  working_dir :: string
  filename :: string
  run_command :: Host

text \<open>The four calls into the Compose library; \<open>ComposeUp\<close> carries \<^verbatim>\<open>detach\<close>.\<close>

datatype compose_cmd =
    ComposeUp DockerCompose bool
  | ComposeDown DockerCompose
  | ComposePs DockerCompose
  | ComposeRestart DockerCompose

text \<open>
  Everything that leaves the process is recorded, in order: a Docker client built for a
  base URL, a daemon request, a command run on a remote host through \<^verbatim>\<open>conn.run\<close> or
  \<^verbatim>\<open>conn.sudo\<close>, a Compose object built, a Compose command built from it.
\<close>

datatype event =
    DockerClientCreated string
  | DaemonList string
  | DaemonStart string string
  | SshExec shell_call
  | ComposeCreated DockerCompose
  | ComposeCalled compose_cmd

type_synonym 'a eff = "(exn + 'a) \<times> event list"

section \<open>DockerManager (docker_manager.py)\<close>

text \<open>
  \<^verbatim>\<open>get_docker_client\<close>: the client is represented by its base URL; \<open>Inr None\<close> is the
  Python \<^verbatim>\<open>None\<close> of the SSH case. What the daemon behind the URL answers, or fails
  with, is the \<open>daemon_list\<close> and \<open>daemon_start\<close> of the collaborators.
\<close>

definition get_docker_client :: "Host \<Rightarrow> string option eff" where
  "get_docker_client h =
     (if connection_type h = ''docker'' then
        (if \<not> truthy (docker_url h) then (Inl (HTTPException 400 ''Missing docker_url''), [])
         else (Inr (docker_url h), [DockerClientCreated (the (docker_url h))]))
      else (Inr None, []))"

text \<open>The call that \<^verbatim>\<open>run_ssh_command\<close> issues for a host and a command.\<close>

definition ssh_invocation :: "Host \<Rightarrow> string \<Rightarrow> shell_call" where
  "ssh_invocation h cmd =
     \<lparr>conn_host = host h,
      conn_user = ssh_user h,
      conn_port = ssh_port h,
      conn_key_filename = ssh_key_filename h,
      config_sudo_password = (if truthy (sudo_password h) then sudo_password h else None),
      mode = (if truthy (sudo_user h) then Sudo (the (sudo_user h)) else Run),
      cmd_text = cmd,
      hide = True\<rparr>"

text \<open>
  \<^verbatim>\<open>Connection(...)\<close> followed by \<^verbatim>\<open>conn.run\<close> or \<^verbatim>\<open>conn.sudo\<close> as the source calls them,
  without \<^verbatim>\<open>warn=True\<close>: a command that exits non-zero raises \<^verbatim>\<open>UnexpectedExit\<close>.
  \<open>Inl\<close> holds \<^verbatim>\<open>str(e)\<close>. A command is recorded as run only where one ran: where no
  connection came about or the authentication was refused, the trace stays empty.
\<close>

definition fabric_execute :: "'j collab \<Rightarrow> shell_call \<Rightarrow> (string + Result) \<times> event list" where
  "fabric_execute env call =
     (case remote_shell env call of
        ConnectFailed msg \<Rightarrow> (Inl msg, [])
      | AuthFailed msg \<Rightarrow> (Inl msg, [])
      | Finished r \<Rightarrow>
          (if exited r \<noteq> 0 then Inl (str_unexpected_exit env r) else Inr r, [SshExec call]))"

text \<open>
  \<^verbatim>\<open>run_ssh_command\<close>: the whole body stands in the \<^verbatim>\<open>try\<close>, so whatever Fabric raises
  becomes the \<open>HTTPException\<close> of status 500.
\<close>

definition run_ssh_command :: "'j collab \<Rightarrow> Host \<Rightarrow> string \<Rightarrow> string eff" where
  "run_ssh_command env h cmd =
     (case fabric_execute env (ssh_invocation h cmd) of
        (Inr result, t) \<Rightarrow> (Inr (strip (stdout result)), t)
      | (Inl msg, t) \<Rightarrow> (Inl (HTTPException 500 (''SSH command failed: '' @ msg)), t))"

section \<open>ComposeManager (compose_manager.py)\<close>

text \<open>
  A \<^verbatim>\<open>ComposeManager\<close> is its stack and its host; main.py passes whatever
  \<^verbatim>\<open>session.get(Host, stack.host_id)\<close> returned, so the host may be \<^verbatim>\<open>None\<close>, and
  reading \<^verbatim>\<open>self.host.connection_type\<close> then raises \<^verbatim>\<open>AttributeError\<close>.
  \<open>get_compose\<close> is \<^verbatim>\<open>_get_compose\<close>.
\<close>

text \<open>
  The working directory that \<^verbatim>\<open>_get_compose\<close> derives:
  \<^verbatim>\<open>self.stack.compose_file.rsplit("/", 1)[0]\<close>.
\<close>

definition compose_working_dir :: "Stack \<Rightarrow> exn + string" where
  "compose_working_dir stack = item0 (rsplit1 (CHR ''/'') (compose_file stack))"

text \<open>
  The call \<^verbatim>\<open>DockerCompose(working_dir=..., filename=..., run_command=...)\<close>. The class
  belongs to the library \<^verbatim>\<open>docker_composer_v2\<close>, outside the repository; its parameters
  are the global options of \<^verbatim>\<open>docker compose\<close>, none of them named \<^verbatim>\<open>working_dir\<close>,
  \<^verbatim>\<open>filename\<close> or \<^verbatim>\<open>run_command\<close>, so Python refuses the call at its first keyword
  with a \<^verbatim>\<open>TypeError\<close>, after the three arguments have been evaluated.
\<close>

definition DockerCompose_init :: "string \<Rightarrow> string \<Rightarrow> Host \<Rightarrow> exn + DockerCompose" where
  "DockerCompose_init wd fn rc = Inl (TypeError ''working_dir'')"

definition get_compose :: "Stack \<Rightarrow> Host option \<Rightarrow> DockerCompose eff" where
  "get_compose stack ho =
     (case ho of
        None \<Rightarrow> (Inl (AttributeError ''connection_type''), [])
      | Some h \<Rightarrow>
          if connection_type h = ''docker''
          then (Inl (HTTPException 400 ''Docker Compose operations require SSH access''), [])
          else (case compose_working_dir stack of
                  Inl e \<Rightarrow> (Inl e, [])
                | Inr wd \<Rightarrow>
                    (case DockerCompose_init wd (compose_file stack) h of
                       Inl e \<Rightarrow> (Inl e, [])
                     | Inr compose \<Rightarrow> (Inr compose, [ComposeCreated compose]))))"

text \<open>
  The four verbs: each asks \<open>get_compose\<close> first and then builds its command from the
  Compose object. (The two statements after the \<^verbatim>\<open>return\<close> of \<^verbatim>\<open>down\<close> are never
  reached.)
\<close>

definition compose_then :: "(DockerCompose \<Rightarrow> compose_cmd) \<Rightarrow> DockerCompose eff \<Rightarrow> compose_cmd eff" where
  "compose_then verb r =
     (case r of
        (Inl e, t) \<Rightarrow> (Inl e, t)
      | (Inr compose, t) \<Rightarrow> (Inr (verb compose), t @ [ComposeCalled (verb compose)]))"

definition up :: "Stack \<Rightarrow> Host option \<Rightarrow> compose_cmd eff" where
  "up stack ho = compose_then (\<lambda>compose. ComposeUp compose True) (get_compose stack ho)"

definition down :: "Stack \<Rightarrow> Host option \<Rightarrow> compose_cmd eff" where
  "down stack ho = compose_then ComposeDown (get_compose stack ho)"

definition ps :: "Stack \<Rightarrow> Host option \<Rightarrow> compose_cmd eff" where
  "ps stack ho = compose_then ComposePs (get_compose stack ho)"

definition restart :: "Stack \<Rightarrow> Host option \<Rightarrow> compose_cmd eff" where
  "restart stack ho = compose_then ComposeRestart (get_compose stack ho)"

section \<open>The registry (db.py and the session)\<close>

text \<open>
  The two tables, each a list of rows under their primary key. \<^verbatim>\<open>session.get\<close> is
  \<open>map_of\<close>. db.py creates the engine without switching SQLite's foreign-key checks on,
  so \<^verbatim>\<open>stack.host_id\<close> is stored as a plain integer and deleting or inserting a row
  touches its own table only. Row ids are SQLite's, signed 64-bit integers; lookups and
  inserts under an id outside that range are not modelled. This section and the next
  give the bodies of the endpoints over a session whose mappers are configured; what
  the first use of the session of this program does is the subject of the section
  after them.
\<close>

record db =
  hosts :: "(int \<times> Host) list"
  stacks :: "(int \<times> Stack) list"

text \<open>
  The row id SQLite gives a row inserted without one: 1, or one more than the largest
  (while the largest is below \<open>2 ^ 63 - 1\<close>, after which SQLite picks an unused id at
  random; no statement below reaches that case).
\<close>

definition next_rowid :: "(int \<times> 'a) list \<Rightarrow> int" where
  "next_rowid tbl = (if tbl = [] then 1 else Max (set (map fst tbl)) + 1)"

text \<open>
  \<^verbatim>\<open>session.add(stack); session.commit(); session.refresh(stack)\<close>: a stack without an
  id gets the next row id, a stack with an id keeps it, and an id already in the table
  fails the commit.
\<close>

definition session_add_stack :: "db \<Rightarrow> Stack \<Rightarrow> (exn + Stack) \<times> db" where
  "session_add_stack d s =
     (case id_s s of
        None \<Rightarrow>
          (Inr (s\<lparr>id_s := Some (next_rowid (stacks d))\<rparr>),
           d\<lparr>stacks := stacks d @ [(next_rowid (stacks d), s\<lparr>id_s := Some (next_rowid (stacks d))\<rparr>)]\<rparr>)
      | Some k \<Rightarrow>
          if k \<in> set (map fst (stacks d)) then (Inl IntegrityError, d)
          else (Inr s, d\<lparr>stacks := stacks d @ [(k, s)]\<rparr>))"

section \<open>The endpoints (main.py)\<close>

definition get_host :: "db \<Rightarrow> int \<Rightarrow> exn + Host" where
  "get_host d hid =
     (case map_of (hosts d) hid of
        None \<Rightarrow> Inl (HTTPException 404 ''Host not found'')
      | Some h \<Rightarrow> Inr h)"

definition delete_host :: "db \<Rightarrow> int \<Rightarrow> (exn + string) \<times> db" where
  "delete_host d hid =
     (case map_of (hosts d) hid of
        None \<Rightarrow> (Inl (HTTPException 404 ''Host not found''), d)
      | Some h \<Rightarrow> (Inr ''Host deleted'', d\<lparr>hosts := filter (\<lambda>row. fst row \<noteq> hid) (hosts d)\<rparr>))"

text \<open>
  \<^verbatim>\<open>str.splitlines()\<close>: a line ends at a line feed, a carriage return (with the line feed
  that follows it, if any), a vertical tab, a form feed, a separator 28 to 30 or NEL; no
  empty last line is produced.
\<close>

definition is_linebreak :: "char \<Rightarrow> bool" where
  "is_linebreak c =
     (let n = (of_char c :: nat)
      in (10 \<le> n \<and> n \<le> 13) \<or> (28 \<le> n \<and> n \<le> 30) \<or> n = 133)"

fun splitlines_from :: "string \<Rightarrow> string \<Rightarrow> string list" where
  "splitlines_from acc [] = (if acc = [] then [] else [rev acc])"
| "splitlines_from acc [c] =
     (if is_linebreak c then [rev acc] else [rev (c # acc)])"
| "splitlines_from acc (c # c' # cs) =
     (if c = CHR 0x0D \<and> c' = CHR 0x0A then rev acc # splitlines_from [] cs
      else if is_linebreak c then rev acc # splitlines_from [] (c' # cs)
      else splitlines_from (c # acc) (c' # cs))"

definition splitlines :: "string \<Rightarrow> string list" where
  "splitlines s = splitlines_from [] s"

text \<open>The list comprehension over \<^verbatim>\<open>json.loads\<close>: the first line that fails ends it.\<close>

fun loads_each :: "(string \<Rightarrow> exn + 'j) \<Rightarrow> string list \<Rightarrow> exn + 'j list" where
  "loads_each f [] = Inr []"
| "loads_each f (l # ls) =
     (case f l of
        Inl e \<Rightarrow> Inl e
      | Inr j \<Rightarrow> (case loads_each f ls of Inl e \<Rightarrow> Inl e | Inr js \<Rightarrow> Inr (j # js)))"

text \<open>
  The answer of \<^verbatim>\<open>list_containers\<close>: the id, name and status of each container on the
  API path, the parsed lines on the SSH path.
\<close>

datatype 'j containers = ApiContainers "Container list" | SshContainers "'j list"

definition docker_ps_cmd :: string where
  "docker_ps_cmd = ''docker ps -a --format '' @ [CHR 0x27] @ ''{{json .}}'' @ [CHR 0x27]"

text \<open>
  \<^verbatim>\<open>list_containers\<close> and \<^verbatim>\<open>start_container\<close> read \<^verbatim>\<open>host.connection_type\<close> straight
  after \<^verbatim>\<open>session.get\<close>, with no test of the host. On the API path the client of
  \<open>get_docker_client\<close> is used at once; were it \<^verbatim>\<open>None\<close>, the attribute access would
  raise.
\<close>

definition list_containers :: "'j collab \<Rightarrow> db \<Rightarrow> int \<Rightarrow> 'j containers eff" where
  "list_containers env d hid =
     (case map_of (hosts d) hid of
        None \<Rightarrow> (Inl (AttributeError ''connection_type''), [])
      | Some h \<Rightarrow>
          if connection_type h = ''docker'' then
            (case get_docker_client h of
               (Inl e, t) \<Rightarrow> (Inl e, t)
             | (Inr None, t) \<Rightarrow> (Inl (AttributeError ''containers''), t)
             | (Inr (Some url), t) \<Rightarrow>
                 (case daemon_list env url of
                    Inl e \<Rightarrow> (Inl e, t @ [DaemonList url])
                  | Inr cs \<Rightarrow> (Inr (ApiContainers cs), t @ [DaemonList url])))
          else
            (case run_ssh_command env h docker_ps_cmd of
               (Inl e, t) \<Rightarrow> (Inl e, t)
             | (Inr output, t) \<Rightarrow>
                 (case loads_each (json_loads env) (splitlines output) of
                    Inl e \<Rightarrow> (Inl e, t)
                  | Inr js \<Rightarrow> (Inr (SshContainers js), t))))"

definition start_container :: "'j collab \<Rightarrow> db \<Rightarrow> int \<Rightarrow> string \<Rightarrow> string eff" where
  "start_container env d hid container_id =
     (case map_of (hosts d) hid of
        None \<Rightarrow> (Inl (AttributeError ''connection_type''), [])
      | Some h \<Rightarrow>
          if connection_type h = ''docker'' then
            (case get_docker_client h of
               (Inl e, t) \<Rightarrow> (Inl e, t)
             | (Inr None, t) \<Rightarrow> (Inl (AttributeError ''containers''), t)
             | (Inr (Some url), t) \<Rightarrow>
                 (case daemon_start env url container_id of
                    Inl e \<Rightarrow> (Inl e, t @ [DaemonStart url container_id])
                  | Inr u \<Rightarrow>
                      (Inr (''Started container '' @ container_id),
                       t @ [DaemonStart url container_id])))
          else
            (case run_ssh_command env h (''docker start '' @ container_id) of
               (Inl e, t) \<Rightarrow> (Inl e, t)
             | (Inr output, t) \<Rightarrow> (Inr (''Started container '' @ container_id), t)))"

definition create_stack :: "db \<Rightarrow> int \<Rightarrow> Stack \<Rightarrow> (exn + Stack) \<times> db" where
  "create_stack d hid stack =
     (case map_of (hosts d) hid of
        None \<Rightarrow> (Inl (HTTPException 404 ''Host not found''), d)
      | Some h \<Rightarrow> session_add_stack d (stack\<lparr>host_id := hid\<rparr>))"

definition list_stacks :: "db \<Rightarrow> int \<Rightarrow> Stack list" where
  "list_stacks d hid = filter (\<lambda>s. host_id s = hid) (map snd (stacks d))"

definition stack_up :: "db \<Rightarrow> int \<Rightarrow> compose_cmd eff" where
  "stack_up d sid =
     (case map_of (stacks d) sid of
        None \<Rightarrow> (Inl (HTTPException 404 ''Stack not found''), [])
      | Some stack \<Rightarrow> up stack (map_of (hosts d) (host_id stack)))"

definition stack_down :: "db \<Rightarrow> int \<Rightarrow> compose_cmd eff" where
  "stack_down d sid =
     (case map_of (stacks d) sid of
        None \<Rightarrow> (Inl (HTTPException 404 ''Stack not found''), [])
      | Some stack \<Rightarrow> down stack (map_of (hosts d) (host_id stack)))"

definition stack_ps :: "db \<Rightarrow> int \<Rightarrow> compose_cmd eff" where
  "stack_ps d sid =
     (case map_of (stacks d) sid of
        None \<Rightarrow> (Inl (HTTPException 404 ''Stack not found''), [])
      | Some stack \<Rightarrow> ps stack (map_of (hosts d) (host_id stack)))"

section \<open>The mappers of models.py and the endpoints as the program serves them\<close>

text \<open>
  The relationships that models.py declares: \<^verbatim>\<open>Stack.host\<close>, to \<^verbatim>\<open>Host\<close>, with
  \<^verbatim>\<open>back_populates="stacks"\<close>. \<^verbatim>\<open>Host\<close> declares none.
\<close>

record relationship =
  rel_owner :: string
  rel_attribute :: string
  rel_target :: string
  rel_back_populates :: string

definition declared_relationships :: "relationship list" where
  "declared_relationships =
     [\<lparr>rel_owner = ''Stack'', rel_attribute = ''host'', rel_target = ''Host'',
       rel_back_populates = ''stacks''\<rparr>]"

text \<open>The columns each class declares, and with the relationships its mapped properties.\<close>

definition declared_columns :: "string \<Rightarrow> string list" where
  "declared_columns cls =
     (if cls = ''Stack'' then [''id'', ''name'', ''compose_file'', ''host_id'']
      else if cls = ''Host'' then
        [''id'', ''name'', ''host'', ''connection_type'', ''docker_url'', ''ssh_user'',
         ''ssh_key_filename'', ''ssh_port'', ''sudo_user'', ''sudo_password'']
      else [])"

definition mapped_properties :: "string \<Rightarrow> string list" where
  "mapped_properties cls =
     declared_columns cls
       @ map rel_attribute (filter (\<lambda>r. rel_owner r = cls) declared_relationships)"

text \<open>
  SQLAlchemy configures the mappers at the first use of a mapped class or of the session.
  A relationship whose \<^verbatim>\<open>back_populates\<close> names no property of its target makes that
  fail with \<^verbatim>\<open>InvalidRequestError\<close>, and every later use fails the same way.
\<close>

definition configure_mappers :: "exn + unit" where
  "configure_mappers =
     (case filter (\<lambda>r. rel_back_populates r \<notin> set (mapped_properties (rel_target r)))
             declared_relationships of
        [] \<Rightarrow> Inr ()
      | r # rs \<Rightarrow> Inl (InvalidRequestError (rel_back_populates r)))"

text \<open>
  \<^verbatim>\<open>delete_host\<close> and \<^verbatim>\<open>create_stack\<close> as the program serves them. Their first step
  uses the ORM (\<^verbatim>\<open>session.get\<close>; for \<^verbatim>\<open>create_stack\<close> already the \<^verbatim>\<open>Stack\<close> built
  from the request body), so the mappers are configured before the body does anything,
  and a failure there ends the request with the registry as it was.
\<close>

definition serve_delete_host :: "db \<Rightarrow> int \<Rightarrow> (exn + string) \<times> db" where
  "serve_delete_host d hid =
     (case configure_mappers of
        Inl e \<Rightarrow> (Inl e, d)
      | Inr u \<Rightarrow> delete_host d hid)"

definition serve_create_stack :: "db \<Rightarrow> int \<Rightarrow> Stack \<Rightarrow> (exn + Stack) \<times> db" where
  "serve_create_stack d hid stack =
     (case configure_mappers of
        Inl e \<Rightarrow> (Inl e, d)
      | Inr u \<Rightarrow> create_stack d hid stack)"

section \<open>The working directory in the spec's words\<close>

text \<open>
  The spec calls the working directory of a stack the parent directory of its compose
  file, an absolute path. \<open>file_name\<close> is the last component of a path, the text after
  its last separator. \<open>is_parent_directory d p\<close> says that \<open>d\<close> is the directory that
  holds the file \<open>p\<close>: the root \<open>/\<close> for a file directly under the root, and otherwise
  the \<open>d\<close> for which \<open>p\<close> is \<open>d\<close>, a separator and the file name. These two definitions
  follow the spec, not the source.
\<close>

definition file_name :: "string \<Rightarrow> string" where
  "file_name p = rev (takeWhile (\<lambda>c. c \<noteq> CHR ''/'') (rev p))"

definition is_parent_directory :: "string \<Rightarrow> string \<Rightarrow> bool" where
  "is_parent_directory d p =
     (if p = ''/'' @ file_name p then d = ''/'' else p = d @ ''/'' @ file_name p)"

section \<open>Example records\<close>

definition demo_api_host :: Host where
  "demo_api_host =
     (Host_defaults ''daemon'' ''1.2.3.4'' ''docker'')\<lparr>docker_url := Some ''tcp://1.2.3.4:2375''\<rparr>"

definition demo_ssh_host :: Host where
  "demo_ssh_host =
     (Host_defaults ''prod-server'' ''prod.example.com'' ''ssh'')
       \<lparr>ssh_user := Some ''deploy'', ssh_key_filename := Some ''/k''\<rparr>"

definition demo_sudo_host :: Host where
  "demo_sudo_host =
     demo_ssh_host\<lparr>sudo_user := Some ''root'', sudo_password := Some ''s3cret''\<rparr>"

definition demo_stack :: Stack where
  "demo_stack =
     \<lparr>id_s = None, name_s = ''app'', compose_file = ''/opt/app/docker-compose.yml'',
      host_id = 1\<rparr>"

definition root_stack :: Stack where
  "root_stack =
     \<lparr>id_s = None, name_s = ''app'', compose_file = ''/docker-compose.yml'', host_id = 1\<rparr>"

definition demo_env :: "remote_outcome \<Rightarrow> string collab" where
  "demo_env outcome =
     \<lparr>remote_shell = (\<lambda>call. outcome),
      str_unexpected_exit = (\<lambda>r. ''Encountered a bad command exit code!''),
      daemon_list = (\<lambda>url. Inr []),
      daemon_start = (\<lambda>url cid. Inr ()),
      json_loads = (\<lambda>line. Inr line)\<rparr>"

text \<open>
  A stand-in for Fabric that answers each call with the identity the command runs
  under: the sudo user of \<^verbatim>\<open>conn.sudo\<close>, or the user of the connection for \<^verbatim>\<open>conn.run\<close>.
\<close>

definition identity_probe :: "shell_call \<Rightarrow> remote_outcome" where
  "identity_probe call =
     Finished
       \<lparr>stdout =
          (case mode call of
             Sudo u \<Rightarrow> ''sudo as '' @ u
           | Run \<Rightarrow> ''run as '' @ (case conn_user call of None \<Rightarrow> [] | Some v \<Rightarrow> v)),
        stderr = [], exited = 0\<rparr>"

definition probe_env :: "string collab" where
  "probe_env = (demo_env (ConnectFailed []))\<lparr>remote_shell := identity_probe\<rparr>"

definition empty_db :: db where
  "empty_db = \<lparr>hosts = [], stacks = []\<rparr>"

definition demo_db :: db where
  "demo_db =
     \<lparr>hosts = [(1, demo_ssh_host\<lparr>id_h := Some 1\<rparr>)],
      stacks = [(1, demo_stack\<lparr>id_s := Some 1\<rparr>)]\<rparr>"

section \<open>Properties of the helpers\<close>

lemma rev_split_while: "xs = rev (dropWhile P (rev xs)) @ rev (takeWhile P (rev xs))"
proof -
  have "rev (takeWhile P (rev xs) @ dropWhile P (rev xs)) = rev (rev xs)"
    by (simp only: takeWhile_dropWhile_id)
  then show ?thesis by (simp only: rev_append rev_rev_ident)
qed

lemma strip_decompose:
  "\<exists>pre suf. s = pre @ strip s @ suf \<and> (\<forall>c\<in>set pre. py_isspace c) \<and> (\<forall>c\<in>set suf. py_isspace c)"
proof -
  define m where "m = dropWhile py_isspace s"
  have s: "s = takeWhile py_isspace s @ m"
    by (simp add: m_def)
  have m: "m = strip s @ rev (takeWhile py_isspace (rev m))"
    unfolding strip_def m_def by (rule rev_split_while)
  have a: "\<forall>c\<in>set (takeWhile py_isspace s). py_isspace c"
    by (auto dest: set_takeWhileD)
  have b: "\<forall>c\<in>set (rev (takeWhile py_isspace (rev m))). py_isspace c"
    by (auto dest: set_takeWhileD)
  from s m have "s = takeWhile py_isspace s @ strip s @ rev (takeWhile py_isspace (rev m))"
    by simp
  with a b show ?thesis by blast
qed

lemma strip_last: "strip s \<noteq> [] \<Longrightarrow> \<not> py_isspace (last (strip s))"
proof -
  assume ne: "strip s \<noteq> []"
  let ?d = "dropWhile py_isspace (rev (dropWhile py_isspace s))"
  from ne have d: "?d \<noteq> []" by (simp add: strip_def)
  then have "\<not> py_isspace (hd ?d)" by (rule hd_dropWhile)
  moreover have "last (strip s) = hd ?d" using d by (simp add: strip_def last_rev)
  ultimately show ?thesis by simp
qed

lemma strip_hd: "strip s \<noteq> [] \<Longrightarrow> \<not> py_isspace (hd (strip s))"
proof -
  assume ne: "strip s \<noteq> []"
  define m where "m = dropWhile py_isspace s"
  have m: "m = strip s @ rev (takeWhile py_isspace (rev m))"
    unfolding strip_def m_def by (rule rev_split_while)
  with ne have mne: "m \<noteq> []" by auto
  then have "\<not> py_isspace (hd m)" unfolding m_def by (rule hd_dropWhile)
  moreover from m ne have "hd m = hd (strip s)" by (metis hd_append2)
  ultimately show ?thesis by simp
qed

lemma configure_mappers_fails: "configure_mappers = Inl (InvalidRequestError ''stacks'')"
  by (simp add: configure_mappers_def declared_relationships_def mapped_properties_def
      declared_columns_def)

section \<open>The claims\<close>

text \<open>
  C1. A Compose verb on an API host: for every stack and every host whose
  \<open>connection_type\<close> is \<open>docker\<close>, each of \<open>up\<close>, \<open>down\<close>, \<open>ps\<close> and \<open>restart\<close> fails
  with the \<open>HTTPException\<close> of status 400, and the trace is empty: no Compose object
  was built, no command was built from one, and neither the remote shell nor the daemon
  was called.
\<close>

theorem compose_verbs_reject_api_host:
  "connection_type h = ''docker'' \<Longrightarrow>
     up stack (Some h) =
       (Inl (HTTPException 400 ''Docker Compose operations require SSH access''), []) \<and>
     down stack (Some h) =
       (Inl (HTTPException 400 ''Docker Compose operations require SSH access''), []) \<and>
     ps stack (Some h) =
       (Inl (HTTPException 400 ''Docker Compose operations require SSH access''), []) \<and>
     restart stack (Some h) =
       (Inl (HTTPException 400 ''Docker Compose operations require SSH access''), []) \<and>
     http_status (HTTPException 400 ''Docker Compose operations require SSH access'') = 400"
  by (simp add: up_def down_def ps_def restart_def compose_then_def get_compose_def)

theorem compose_verbs_reject_api_host_witness:
  "connection_type demo_api_host = ''docker'' \<and>
   down demo_stack (Some demo_api_host) =
     (Inl (HTTPException 400 ''Docker Compose operations require SSH access''), [])"
  using compose_verbs_reject_api_host [of demo_api_host demo_stack]
  by (simp add: demo_api_host_def Host_defaults_def)

text \<open>
  C2. A container operation on a host id that the registry does not hold. The claim asks
  for the 404 of a not-found lookup. On the empty registry \<open>list_containers\<close> and
  \<open>start_container\<close> raise \<open>AttributeError\<close> instead, which the boundary answers with
  500, while \<open>get_host\<close>, \<open>delete_host\<close> and \<open>create_stack\<close> answer the same lookup with
  404. (These are the bodies of the endpoints over a session whose mappers are
  configured; with the mappers of models.py the request fails earlier, also with 500.)
\<close>

theorem container_operations_unknown_host:
  "list_containers env empty_db 1 = (Inl (AttributeError ''connection_type''), []) \<and>
   start_container env empty_db 1 ''web'' = (Inl (AttributeError ''connection_type''), []) \<and>
   http_status (AttributeError ''connection_type'') = 500 \<and>
   get_host empty_db 1 = Inl (HTTPException 404 ''Host not found'') \<and>
   fst (delete_host empty_db 1) = Inl (HTTPException 404 ''Host not found'') \<and>
   fst (create_stack empty_db 1 demo_stack) = Inl (HTTPException 404 ''Host not found'')"
  by (simp add: list_containers_def start_container_def get_host_def delete_host_def
      create_stack_def empty_db_def)

text \<open>
  C3. Deleting a host that stacks refer to. As the program serves it, \<open>delete_host\<close>
  never removes a host: the request fails when the mappers are configured, it is
  answered with status 500 (the failure is surfaced, not silent), and the registry is
  left as it was, so every stack still finds the host it found before.
\<close>

theorem serve_delete_host_orphans_nothing:
  "serve_delete_host d hid = (Inl (InvalidRequestError ''stacks''), d) \<and>
   http_status (InvalidRequestError ''stacks'') = 500 \<and>
   (\<forall>row\<in>set (stacks (snd (serve_delete_host d hid))).
      map_of (hosts (snd (serve_delete_host d hid))) (host_id (snd row)) =
      map_of (hosts d) (host_id (snd row)))"
proof -
  have "serve_delete_host d hid = (Inl (InvalidRequestError ''stacks''), d)"
    unfolding serve_delete_host_def configure_mappers_fails by simp
  then show ?thesis by simp
qed

theorem serve_delete_host_orphans_nothing_witness:
  "(1, demo_stack\<lparr>id_s := Some 1\<rparr>) \<in> set (stacks (snd (serve_delete_host demo_db 1))) \<and>
   map_of (hosts (snd (serve_delete_host demo_db 1))) 1 = Some (demo_ssh_host\<lparr>id_h := Some 1\<rparr>) \<and>
   fst (serve_delete_host demo_db 1) = Inl (InvalidRequestError ''stacks'')"
  using serve_delete_host_orphans_nothing [of demo_db 1]
  by (simp add: demo_db_def)

text \<open>
  C4. Resolving an API host without a URL: for every host whose \<open>connection_type\<close> is
  \<open>docker\<close> and whose \<open>docker_url\<close> is \<^verbatim>\<open>None\<close> or empty, \<open>get_docker_client\<close> fails with
  the \<open>HTTPException\<close> of status 400 and its trace is empty: no client was built.
\<close>

theorem get_docker_client_missing_url:
  "connection_type h = ''docker'' \<Longrightarrow> docker_url h = None \<or> docker_url h = Some [] \<Longrightarrow>
     get_docker_client h = (Inl (HTTPException 400 ''Missing docker_url''), []) \<and>
     http_status (HTTPException 400 ''Missing docker_url'') = 400"
  by (auto simp: get_docker_client_def)

theorem get_docker_client_missing_url_witness:
  "connection_type (Host_defaults ''daemon'' ''1.2.3.4'' ''docker'') = ''docker'' \<and>
   docker_url (Host_defaults ''daemon'' ''1.2.3.4'' ''docker'') = None \<and>
   get_docker_client (Host_defaults ''daemon'' ''1.2.3.4'' ''docker'') =
     (Inl (HTTPException 400 ''Missing docker_url''), [])"
  using get_docker_client_missing_url [of "Host_defaults ''daemon'' ''1.2.3.4'' ''docker''"]
  by (simp add: Host_defaults_def)

text \<open>
  C5. The working directory of the Compose verbs. For the compose file
  \<open>/opt/app/docker-compose.yml\<close> the source derives \<open>/opt/app\<close>, the parent directory.
  For a compose file directly under the root, \<open>/docker-compose.yml\<close>, it derives the
  empty text, where the parent directory is \<open>/\<close>. And on a host that is not an API
  host none of the four verbs comes to use a working directory: the Compose library
  refuses the keywords of the constructor call, and each verb fails with that
  \<^verbatim>\<open>TypeError\<close> and an empty trace.
\<close>

theorem compose_working_dir_root_file:
  "compose_working_dir root_stack = Inr [] \<and>
   is_parent_directory ''/'' (compose_file root_stack) \<and>
   \<not> is_parent_directory [] (compose_file root_stack) \<and>
   compose_working_dir demo_stack = Inr ''/opt/app'' \<and>
   is_parent_directory ''/opt/app'' (compose_file demo_stack) \<and>
   up demo_stack (Some demo_ssh_host) = (Inl (TypeError ''working_dir''), []) \<and>
   down demo_stack (Some demo_ssh_host) = (Inl (TypeError ''working_dir''), []) \<and>
   ps demo_stack (Some demo_ssh_host) = (Inl (TypeError ''working_dir''), []) \<and>
   restart demo_stack (Some demo_ssh_host) = (Inl (TypeError ''working_dir''), []) \<and>
   http_status (TypeError ''working_dir'') = 500"
proof -
  have r: "compose_working_dir root_stack = Inr []"
    by (simp add: compose_working_dir_def root_stack_def rsplit1_def)
  have p1: "is_parent_directory ''/'' (compose_file root_stack)"
    by (simp add: is_parent_directory_def file_name_def root_stack_def)
  have p2: "\<not> is_parent_directory [] (compose_file root_stack)"
    by (simp add: is_parent_directory_def file_name_def root_stack_def)
  have d: "compose_working_dir demo_stack = Inr ''/opt/app''"
    by (simp add: compose_working_dir_def demo_stack_def rsplit1_def)
  have p3: "is_parent_directory ''/opt/app'' (compose_file demo_stack)"
    by (simp add: is_parent_directory_def file_name_def demo_stack_def)
  have g: "get_compose demo_stack (Some demo_ssh_host) = (Inl (TypeError ''working_dir''), [])"
    by (simp add: get_compose_def d DockerCompose_init_def demo_ssh_host_def Host_defaults_def)
  from r p1 p2 d p3 g show ?thesis
    by (simp add: up_def down_def ps_def restart_def compose_then_def)
qed

text \<open>
  C6. The identity a remote command runs under. For every host and command there is one
  call \<open>c\<close> that \<open>run_ssh_command\<close> hands to Fabric: to the host's address, as
  \<open>ssh_user\<close>, with its port and key file, for the given command and with output
  hidden. A sudo identity is configured when \<open>sudo_user\<close> is present and not empty (the
  source tests its truth value): \<open>c\<close> is \<^verbatim>\<open>sudo\<close> under the user \<open>u\<close> exactly when
  \<open>sudo_user\<close> is that non-empty \<open>u\<close>, and the plain \<^verbatim>\<open>run\<close> exactly when \<open>sudo_user\<close> is
  \<^verbatim>\<open>None\<close> or empty; the sudo password is in the connection's configuration exactly when
  it is present and not empty. What \<open>run_ssh_command\<close> returns and records is decided
  by what Fabric does with this \<open>c\<close> and with nothing else: where the command runs, it
  is \<open>c\<close> that ran, and where no connection comes about or the authentication is
  refused, nothing ran.
\<close>

theorem run_ssh_command_identity:
  "\<exists>c. conn_host c = host h \<and> conn_user c = ssh_user h \<and> conn_port c = ssh_port h \<and>
       conn_key_filename c = ssh_key_filename h \<and> cmd_text c = cmd \<and> hide c = True \<and>
       (\<forall>u. (mode c = Sudo u) = (sudo_user h = Some u \<and> u \<noteq> [])) \<and>
       (mode c = Run) = (sudo_user h = None \<or> sudo_user h = Some []) \<and>
       (\<forall>p. (config_sudo_password c = Some p) = (sudo_password h = Some p \<and> p \<noteq> [])) \<and>
       run_ssh_command env h cmd =
         (case remote_shell env c of
            ConnectFailed msg \<Rightarrow> (Inl (HTTPException 500 (''SSH command failed: '' @ msg)), [])
          | AuthFailed msg \<Rightarrow> (Inl (HTTPException 500 (''SSH command failed: '' @ msg)), [])
          | Finished r \<Rightarrow>
              (if exited r = 0 then Inr (strip (stdout r))
               else Inl (HTTPException 500
                      (''SSH command failed: '' @ str_unexpected_exit env r)),
               [SshExec c]))"
proof -
  let ?c = "ssh_invocation h cmd"
  have f: "conn_host ?c = host h \<and> conn_user ?c = ssh_user h \<and> conn_port ?c = ssh_port h \<and>
      conn_key_filename ?c = ssh_key_filename h \<and> cmd_text ?c = cmd \<and> hide ?c = True"
    by (simp add: ssh_invocation_def)
  have s: "\<forall>u. (mode ?c = Sudo u) = (sudo_user h = Some u \<and> u \<noteq> [])"
    by (cases "sudo_user h") (auto simp: ssh_invocation_def)
  have r: "(mode ?c = Run) = (sudo_user h = None \<or> sudo_user h = Some [])"
    by (cases "sudo_user h") (auto simp: ssh_invocation_def)
  have p: "\<forall>p. (config_sudo_password ?c = Some p) = (sudo_password h = Some p \<and> p \<noteq> [])"
    by (cases "sudo_password h") (auto simp: ssh_invocation_def)
  have e: "run_ssh_command env h cmd =
      (case remote_shell env ?c of
         ConnectFailed msg \<Rightarrow> (Inl (HTTPException 500 (''SSH command failed: '' @ msg)), [])
       | AuthFailed msg \<Rightarrow> (Inl (HTTPException 500 (''SSH command failed: '' @ msg)), [])
       | Finished r \<Rightarrow>
           (if exited r = 0 then Inr (strip (stdout r))
            else Inl (HTTPException 500
                   (''SSH command failed: '' @ str_unexpected_exit env r)),
            [SshExec ?c]))"
    by (simp add: run_ssh_command_def fabric_execute_def split: remote_outcome.splits)
  from f s r p e show ?thesis by blast
qed

theorem run_ssh_command_identity_witness:
  "fst (run_ssh_command probe_env demo_sudo_host ''docker ps'') = Inr ''sudo as root'' \<and>
   fst (run_ssh_command probe_env demo_ssh_host ''docker ps'') = Inr ''run as deploy''"
proof -
  have t1: "strip ''sudo as root'' = ''sudo as root''"
    by (simp add: strip_def py_isspace_def)
  have t2: "strip ''run as deploy'' = ''run as deploy''"
    by (simp add: strip_def py_isspace_def)
  from run_ssh_command_identity [where h = demo_sudo_host and cmd = "''docker ps''"
      and env = probe_env]
  obtain c where m: "\<forall>u. (mode c = Sudo u) = (sudo_user demo_sudo_host = Some u \<and> u \<noteq> [])"
    and e: "run_ssh_command probe_env demo_sudo_host ''docker ps'' =
      (case remote_shell probe_env c of
         ConnectFailed msg \<Rightarrow> (Inl (HTTPException 500 (''SSH command failed: '' @ msg)), [])
       | AuthFailed msg \<Rightarrow> (Inl (HTTPException 500 (''SSH command failed: '' @ msg)), [])
       | Finished r \<Rightarrow>
           (if exited r = 0 then Inr (strip (stdout r))
            else Inl (HTTPException 500
                   (''SSH command failed: '' @ str_unexpected_exit probe_env r)),
            [SshExec c]))"
    by blast
  from m have "mode c = Sudo ''root''"
    by (simp add: demo_sudo_host_def demo_ssh_host_def Host_defaults_def)
  then have "remote_shell probe_env c =
      Finished \<lparr>stdout = ''sudo as root'', stderr = [], exited = 0\<rparr>"
    by (simp add: probe_env_def demo_env_def identity_probe_def)
  with e t1 have a: "fst (run_ssh_command probe_env demo_sudo_host ''docker ps'') =
      Inr ''sudo as root''"
    by simp
  from run_ssh_command_identity [where h = demo_ssh_host and cmd = "''docker ps''"
      and env = probe_env]
  obtain c' where u: "conn_user c' = ssh_user demo_ssh_host"
    and m': "(mode c' = Run) = (sudo_user demo_ssh_host = None \<or> sudo_user demo_ssh_host = Some [])"
    and e': "run_ssh_command probe_env demo_ssh_host ''docker ps'' =
      (case remote_shell probe_env c' of
         ConnectFailed msg \<Rightarrow> (Inl (HTTPException 500 (''SSH command failed: '' @ msg)), [])
       | AuthFailed msg \<Rightarrow> (Inl (HTTPException 500 (''SSH command failed: '' @ msg)), [])
       | Finished r \<Rightarrow>
           (if exited r = 0 then Inr (strip (stdout r))
            else Inl (HTTPException 500
                   (''SSH command failed: '' @ str_unexpected_exit probe_env r)),
            [SshExec c']))"
    by blast
  from m' have "mode c' = Run"
    by (simp add: demo_ssh_host_def Host_defaults_def)
  moreover from u have "conn_user c' = Some ''deploy''"
    by (simp add: demo_ssh_host_def Host_defaults_def)
  ultimately have "remote_shell probe_env c' =
      Finished \<lparr>stdout = ''run as deploy'', stderr = [], exited = 0\<rparr>"
    by (simp add: probe_env_def demo_env_def identity_probe_def)
  with e' t2 have b: "fst (run_ssh_command probe_env demo_ssh_host ''docker ps'') =
      Inr ''run as deploy''"
    by simp
  from a b show ?thesis by simp
qed

text \<open>
  C7. The payload of a successful remote command. When the remote command of
  \<open>run_ssh_command\<close> finishes with exit code 0, the value returned is \<open>strip\<close> of its
  standard output and of nothing else: neither \<open>stderr\<close> nor \<open>exited\<close> occurs in it.
  \<open>strip\<close> removes a prefix and a suffix made of whitespace only, and what remains
  neither begins nor ends with whitespace.
\<close>

theorem run_ssh_command_trimmed_stdout:
  "remote_shell env (ssh_invocation h cmd) = Finished r \<Longrightarrow> exited r = 0 \<Longrightarrow>
     fst (run_ssh_command env h cmd) = Inr (strip (stdout r)) \<and>
     (\<exists>pre suf. stdout r = pre @ strip (stdout r) @ suf \<and>
        (\<forall>c\<in>set pre. py_isspace c) \<and> (\<forall>c\<in>set suf. py_isspace c)) \<and>
     (strip (stdout r) \<noteq> [] \<longrightarrow>
        \<not> py_isspace (hd (strip (stdout r))) \<and> \<not> py_isspace (last (strip (stdout r))))"
proof -
  assume a: "remote_shell env (ssh_invocation h cmd) = Finished r" and b: "exited r = 0"
  then have "fst (run_ssh_command env h cmd) = Inr (strip (stdout r))"
    by (simp add: run_ssh_command_def fabric_execute_def)
  with strip_decompose [of "stdout r"] strip_hd [of "stdout r"] strip_last [of "stdout r"]
  show ?thesis by blast
qed

theorem run_ssh_command_trimmed_stdout_witness:
  "remote_shell (demo_env (Finished \<lparr>stdout = ''  ok '', stderr = ''warn'', exited = 0\<rparr>))
     (ssh_invocation demo_ssh_host ''docker ps'') =
     Finished \<lparr>stdout = ''  ok '', stderr = ''warn'', exited = 0\<rparr> \<and>
   exited \<lparr>stdout = ''  ok '', stderr = ''warn'', exited = 0\<rparr> = 0 \<and>
   fst (run_ssh_command (demo_env (Finished \<lparr>stdout = ''  ok '', stderr = ''warn'', exited = 0\<rparr>))
     demo_ssh_host ''docker ps'') = Inr ''ok''"
proof -
  let ?r = "\<lparr>stdout = ''  ok '', stderr = ''warn'', exited = 0\<rparr>"
  have a: "remote_shell (demo_env (Finished ?r)) (ssh_invocation demo_ssh_host ''docker ps'') =
      Finished ?r"
    by (simp add: demo_env_def)
  have b: "exited ?r = 0" by simp
  have s: "strip (stdout ?r) = ''ok''"
    by (simp add: strip_def py_isspace_def)
  from run_ssh_command_trimmed_stdout [OF a b] a b s show ?thesis
    by simp
qed

text \<open>
  C8. Failures on the SSH path. A connection that cannot be opened, an authentication
  that is refused and a command that exits non-zero all make \<open>run_ssh_command\<close> fail
  with the same \<open>HTTPException\<close> of status 500, whose detail is the fixed prefix followed
  by the text of the original failure; and every failure of \<open>run_ssh_command\<close> has this
  one form, so the kind of failure cannot be read from anything but the text.
\<close>

theorem run_ssh_command_failure_uniform:
  "(remote_shell env (ssh_invocation h cmd) = ConnectFailed msg \<longrightarrow>
      fst (run_ssh_command env h cmd) =
        Inl (HTTPException 500 (''SSH command failed: '' @ msg))) \<and>
   (remote_shell env (ssh_invocation h cmd) = AuthFailed msg \<longrightarrow>
      fst (run_ssh_command env h cmd) =
        Inl (HTTPException 500 (''SSH command failed: '' @ msg))) \<and>
   (remote_shell env (ssh_invocation h cmd) = Finished r \<and> exited r \<noteq> 0 \<longrightarrow>
      fst (run_ssh_command env h cmd) =
        Inl (HTTPException 500 (''SSH command failed: '' @ str_unexpected_exit env r))) \<and>
   (\<forall>e. fst (run_ssh_command env h cmd) = Inl e \<longrightarrow>
      (\<exists>text. e = HTTPException 500 (''SSH command failed: '' @ text)) \<and> http_status e = 500)"
proof -
  have last: "\<forall>e. fst (run_ssh_command env h cmd) = Inl e \<longrightarrow>
      (\<exists>text. e = HTTPException 500 (''SSH command failed: '' @ text)) \<and> http_status e = 500"
    by (auto simp: run_ssh_command_def fabric_execute_def split: remote_outcome.splits)
  then show ?thesis
    by (simp add: run_ssh_command_def fabric_execute_def)
qed

theorem run_ssh_command_failure_uniform_witness:
  "fst (run_ssh_command (demo_env (ConnectFailed ''timed out'')) demo_ssh_host ''docker ps'') =
     Inl (HTTPException 500 ''SSH command failed: timed out'') \<and>
   fst (run_ssh_command (demo_env (AuthFailed ''Authentication failed.'')) demo_ssh_host
     ''docker ps'') = Inl (HTTPException 500 ''SSH command failed: Authentication failed.'') \<and>
   fst (run_ssh_command (demo_env (Finished \<lparr>stdout = [], stderr = ''no'', exited = 1\<rparr>))
     demo_ssh_host ''docker ps'') =
     Inl (HTTPException 500 ''SSH command failed: Encountered a bad command exit code!'')"
  using run_ssh_command_failure_uniform
          [of "demo_env (ConnectFailed ''timed out'')" demo_ssh_host "''docker ps''"
              "''timed out''" "\<lparr>stdout = [], stderr = ''no'', exited = 1\<rparr>"]
        run_ssh_command_failure_uniform
          [of "demo_env (AuthFailed ''Authentication failed.'')" demo_ssh_host "''docker ps''"
              "''Authentication failed.''" "\<lparr>stdout = [], stderr = ''no'', exited = 1\<rparr>"]
        run_ssh_command_failure_uniform
          [of "demo_env (Finished \<lparr>stdout = [], stderr = ''no'', exited = 1\<rparr>)" demo_ssh_host
              "''docker ps''" "''x''" "\<lparr>stdout = [], stderr = ''no'', exited = 1\<rparr>"]
  by (simp add: demo_env_def)

text \<open>
  C9. Creating a stack under a host id. The claim asks for the 404 of a not-found lookup
  when the registry holds no such host, and for a stack bound to the host when it does.
  As the program serves it, \<open>create_stack\<close> does neither: on the empty registry and on
  \<open>demo_db\<close>, which holds host 1, the request fails when the mappers are configured, it
  is answered with status 500, and no stack is stored.
\<close>

theorem serve_create_stack_fails:
  "serve_create_stack empty_db 1 demo_stack = (Inl (InvalidRequestError ''stacks''), empty_db) \<and>
   serve_create_stack demo_db 1 demo_stack = (Inl (InvalidRequestError ''stacks''), demo_db) \<and>
   http_status (InvalidRequestError ''stacks'') = 500"
  unfolding serve_create_stack_def configure_mappers_fails by simp

text \<open>
  C10. Resolving a host that is not an API host: for every host whose \<open>connection_type\<close>
  is not the string \<open>docker\<close>, whatever its other fields hold, \<open>get_docker_client\<close>
  returns \<^verbatim>\<open>None\<close>, raises nothing and has no effect.
\<close>

theorem get_docker_client_none_for_non_docker:
  "connection_type h \<noteq> ''docker'' \<Longrightarrow> get_docker_client h = (Inr None, [])"
  by (simp add: get_docker_client_def)

theorem get_docker_client_none_for_non_docker_witness:
  "connection_type (Host_defaults ''bare'' ''10.0.0.5'' ''ssh'') \<noteq> ''docker'' \<and>
   ssh_user (Host_defaults ''bare'' ''10.0.0.5'' ''ssh'') = None \<and>
   ssh_key_filename (Host_defaults ''bare'' ''10.0.0.5'' ''ssh'') = None \<and>
   get_docker_client (Host_defaults ''bare'' ''10.0.0.5'' ''ssh'') = (Inr None, []) \<and>
   connection_type (Host_defaults ''odd'' ''10.0.0.6'' ''podman'') \<noteq> ''docker'' \<and>
   get_docker_client (Host_defaults ''odd'' ''10.0.0.6'' ''podman'') = (Inr None, [])"
  using get_docker_client_none_for_non_docker [of "Host_defaults ''bare'' ''10.0.0.5'' ''ssh''"]
        get_docker_client_none_for_non_docker [of "Host_defaults ''odd'' ''10.0.0.6'' ''podman''"]
  by (simp add: Host_defaults_def)

end
